theory Spec2Isabelle
  imports Complex_Main
begin

section \<open>The roasting dashboard (app.py) as a state-passing model\<close>

text \<open>
  app.py is a Streamlit script: every interaction runs it from top to bottom against
  the values kept in \<open>st.session_state\<close>. Each block of the script that reads or
  writes that state is a function here, taking the session state and the instants that
  the block reads from the clock, and returning the new state or the Python exception
  the block raises.

  Numbers: \<open>datetime\<close> instants are seconds on the real line, \<open>total_seconds() / 60\<close>
  is real division, and temperatures are reals. Python computes them in binary
  floating point; the only arithmetic the properties below depend on is a difference of
  instants, a division by 60 and a multiplication by 2, and rounding is left out.
\<close>

subsection \<open>Errors\<close>

text \<open>
  \<open>InvalidParameter\<close> and \<open>InvalidTransition\<close> are error kinds of the specification
  (section 7). \<open>IndexError\<close> and \<open>TypeError\<close> are the Python exceptions that the code of
  app.py can raise: a positional read out of bounds, and arithmetic on \<open>None\<close>.
\<close>

datatype error =
    InvalidParameter string
  | InvalidTransition
  | IndexError
  | TypeError

subsection \<open>Data\<close>

type_synonym instant = real

text \<open>
  A row of the roast profile. app.py reads only the column \<open>Temperature\<close> of the
  profile, by position; \<open>Time\<close> is the elapsed-minutes column of the same row.
\<close>

record reading =
  Time :: real
  Temperature :: real

type_synonym profile = "reading list"

text \<open>
  A row of \<open>st.session_state.roast_data\<close>, the live trace: the data frame with the
  columns \<open>Time\<close>, \<open>Temperature\<close>, \<open>Event\<close> of line 31.
\<close>

record trace_row = reading +
  Event :: string

text \<open>
  A row of \<open>event_handler.get_events_df()\<close>; the three columns are the ones named in
  the \<open>column_config\<close> of lines 134 to 138.
\<close>

record roast_event =
  timestamp :: instant
  event_type :: string
  details :: string

text \<open>
  The session state of lines 30 to 37, together with the log that the event handler
  keeps.
\<close>

record session_state =
  roast_data :: "trace_row list"
  roast_in_progress :: bool
  start_time :: "instant option"
  roast_profile :: "profile option"
  events :: "roast_event list"

definition initial_state :: session_state where
  "initial_state =
     \<lparr>roast_data = [], roast_in_progress = False, start_time = None,
      roast_profile = None, events = []\<rparr>"

subsection \<open>Library operations\<close>

text \<open>Python's \<open>int(x)\<close> on a float truncates towards zero.\<close>

definition py_int :: "real \<Rightarrow> int" where
  "py_int x = (if 0 \<le> x then \<lfloor>x\<rfloor> else \<lceil>x\<rceil>)"

text \<open>
  \<open>df.iloc[i]\<close>: position \<open>i\<close> of the rows, a negative \<open>i\<close> counting back from the
  end, and \<open>IndexError\<close> outside \<open>-n \<le> i < n\<close>.
\<close>

definition iloc :: "'a list \<Rightarrow> int \<Rightarrow> error + 'a" where
  "iloc rows i =
     (if 0 \<le> i \<and> i < int (length rows) then Inr (rows ! nat i)
      else if i < 0 \<and> - int (length rows) \<le> i then Inr (rows ! nat (int (length rows) + i))
      else Inl IndexError)"

text \<open>
  Modelled from the spec: \<open>EventHandler.add_event\<close> of utils/event_handler.py, which is
  not among the sources. Section 4.2: the append always succeeds, assigns the timestamp
  (the instant \<open>ts\<close>, read from the clock by the handler) and appends to the end.
\<close>

definition add_event :: "string \<Rightarrow> string \<Rightarrow> instant \<Rightarrow> session_state \<Rightarrow> session_state" where
  "add_event kind note ts s =
     s\<lparr>events := events s @ [\<lparr>timestamp = ts, event_type = kind, details = note\<rparr>]\<rparr>"

subsection \<open>The live temperature (lines 106 to 125)\<close>

text \<open>
  Lines 112 to 114: the row of the profile at position
  \<open>min(int(current_time * 2), len(profile) - 1)\<close>, and its \<open>Temperature\<close>.
\<close>

definition lookup_index :: "profile \<Rightarrow> real \<Rightarrow> int" where
  "lookup_index p current_time = min (py_int (current_time * 2)) (int (length p) - 1)"

definition current_temp :: "profile \<Rightarrow> real \<Rightarrow> error + real" where
  "current_temp p current_time =
     (case iloc p (lookup_index p current_time) of
        Inl e \<Rightarrow> Inl e
      | Inr row \<Rightarrow> Inr (Temperature row))"

text \<open>
  The whole block: while a roast is in progress and a profile is present, the elapsed
  minutes since \<open>start_time\<close> are computed, the temperature is read from the profile and
  one row is appended to \<open>roast_data\<close>. Subtracting \<open>None\<close> from a \<open>datetime\<close> raises
  \<open>TypeError\<close>.
\<close>

definition live_reading :: "instant \<Rightarrow> session_state \<Rightarrow> error + session_state" where
  "live_reading now s =
     (if roast_in_progress s then
        (case roast_profile s of
           None \<Rightarrow> Inr s
         | Some p \<Rightarrow>
            (case start_time s of
               None \<Rightarrow> Inl TypeError
             | Some t0 \<Rightarrow>
                (case current_temp p ((now - t0) / 60) of
                   Inl e \<Rightarrow> Inl e
                 | Inr temp \<Rightarrow>
                     Inr (s\<lparr>roast_data := roast_data s @
                            [\<lparr>Time = (now - t0) / 60, Temperature = temp, Event = []\<rparr>]\<rparr>))))
      else Inr s)"

text \<open>
  The profiles on which the positional lookup of lines 112 to 114 is a lookup by time:
  row \<open>i\<close> is the sample at \<open>i / 2\<close> elapsed minutes, that is, the samples are half a
  minute apart and the first one is at 0. app.py checks neither condition and never
  reads the \<open>Time\<close> column; section 3 of the specification gives the half-minute
  resolution and no origin. The condition is a stated hypothesis wherever it is used.
\<close>

definition half_minute_grid :: "profile \<Rightarrow> bool" where
  "half_minute_grid p = (map Time p = map (\<lambda>i. real i / 2) [0..<length p])"

subsection \<open>Starting and ending a roast (lines 88 to 91 and 101 to 104)\<close>

text \<open>
  A Streamlit button created with \<open>disabled=True\<close> cannot be pressed: \<open>st.button\<close>
  returns \<open>False\<close> and the body under it does not run. A press of the button is
  therefore the body guarded by the negation of the \<open>disabled\<close> expression, and
  leaves the state as it is when the button is disabled. No exception is raised on that
  path.

  The event text of line 91 is the f-string
  \<open>f"Batch: {batch_size}g {bean_type} from {origin}"\<close>; \<open>str_int\<close> stands for
  Python's rendering of the integer.
\<close>

definition batch_note :: "(int \<Rightarrow> string) \<Rightarrow> int \<Rightarrow> string \<Rightarrow> string \<Rightarrow> string" where
  "batch_note str_int batch_size bean_type origin =
     ''Batch: '' @ str_int batch_size @ ''g '' @ bean_type @ '' from '' @ origin"

text \<open>
  \<open>now\<close> is the instant read at line 90, \<open>ts\<close> the one the event handler stamps the
  event with.
\<close>

definition start_roast :: "string \<Rightarrow> instant \<Rightarrow> instant \<Rightarrow> session_state \<Rightarrow> error + session_state" where
  "start_roast note now ts s =
     (if roast_in_progress s \<or> roast_profile s = None then Inr s
      else Inr (add_event ''Roast Started'' note ts
                  (s\<lparr>roast_in_progress := True, start_time := Some now\<rparr>)))"

text \<open>
  Line 104 formats the duration in minutes with \<open>:.1f\<close>; \<open>fmt_1f\<close> stands for that
  rendering. Line 103 subtracts \<open>start_time\<close> from the clock, which raises \<open>TypeError\<close>
  when \<open>start_time\<close> is \<open>None\<close> (the flag of line 102 is already cleared by then; the
  state at an exception is not part of the result here).
\<close>

definition duration_note :: "(real \<Rightarrow> string) \<Rightarrow> real \<Rightarrow> string" where
  "duration_note fmt_1f minutes = ''Duration: '' @ fmt_1f minutes @ '' minutes''"

definition end_roast :: "(real \<Rightarrow> string) \<Rightarrow> instant \<Rightarrow> instant \<Rightarrow> session_state \<Rightarrow> error + session_state" where
  "end_roast fmt_1f now ts s =
     (if \<not> roast_in_progress s then Inr s
      else
        (case start_time s of
           None \<Rightarrow> Inl TypeError
         | Some t0 \<Rightarrow>
             Inr (add_event ''Roast Completed'' (duration_note fmt_1f ((now - t0) / 60)) ts
                    (s\<lparr>roast_in_progress := False\<rparr>))))"



text \<open>
  The invariant of the sessions that app.py produces: a roast in progress has a
  \<open>start_time\<close>.
\<close>

definition started :: "session_state \<Rightarrow> bool" where
  "started s = (roast_in_progress s \<longrightarrow> start_time s \<noteq> None)"

subsection \<open>Roast statistics (lines 150 to 165)\<close>

text \<open>
  \<open>time_to_first_crack\<close> starts as the string \<open>"N/A"\<close> and becomes a float of minutes
  when the log has a row of type \<open>"First Crack"\<close>.
\<close>

datatype ttfc = N_A | Minutes real

text \<open>
  Lines 153 to 160. \<open>pd.to_datetime(None)\<close> is \<open>None\<close>, and subtracting it from a
  timestamp raises \<open>TypeError\<close>.
\<close>

definition time_to_first_crack :: "roast_event list \<Rightarrow> instant option \<Rightarrow> error + ttfc" where
  "time_to_first_crack events_df st =
     (if events_df \<noteq> [] \<and> ''First Crack'' \<in> set (map event_type events_df) then
        (case iloc (map timestamp (filter (\<lambda>e. event_type e = ''First Crack'') events_df)) 0 of
           Inl e \<Rightarrow> Inl e
         | Inr first_crack_time \<Rightarrow>
            (case st of
               None \<Rightarrow> Inl TypeError
             | Some t0 \<Rightarrow> Inr (Minutes ((first_crack_time - t0) / 60))))
      else Inr N_A)"

record statistics =
  latest_temp :: real
  max_temp :: real
  first_crack :: ttfc

text \<open>
  The block under \<open>if not st.session_state.roast_data.empty\<close>: nothing is computed or
  shown (\<open>None\<close>) while the trace has no row; otherwise the three metrics. The maximum
  of the \<open>Temperature\<close> column is folded from its first entry.
\<close>

definition roast_statistics :: "session_state \<Rightarrow> error + statistics option" where
  "roast_statistics s =
     (case roast_data s of
        [] \<Rightarrow> Inr None
      | r # rs \<Rightarrow>
         (case time_to_first_crack (events s) (start_time s) of
            Inl e \<Rightarrow> Inl e
          | Inr t \<Rightarrow>
              Inr (Some \<lparr>latest_temp = Temperature (last (r # rs)),
                         max_temp = fold max (map Temperature rs) (Temperature r),
                         first_crack = t\<rparr>)))"

subsection \<open>Profile generation (lines 62 to 68)\<close>

datatype roast_level = Light | Medium | Dark | French | Italian

text \<open>
  Modelled from the spec: \<open>generate\<close>, the function \<open>generate_roast_profile\<close> of
  utils/profile_generator.py, which is not among the sources. Section 4.1: the charge
  temperature lies in 150 to 250 degrees, the development percentage strictly between 0
  and 100, and an input out of range fails with \<open>InvalidParameter\<close> naming the
  parameter, without clamping. The synthesis of the curve is given at design level only
  and is the parameter \<open>curve\<close>.
\<close>

definition generate ::
  "(roast_level \<Rightarrow> real \<Rightarrow> real \<Rightarrow> profile) \<Rightarrow> string \<Rightarrow> roast_level \<Rightarrow> real \<Rightarrow> real \<Rightarrow> error + profile" where
  "generate curve bean_type level charge_temp development_time_pct =
     (if charge_temp < 150 \<or> 250 < charge_temp then Inl (InvalidParameter ''charge_temp'')
      else if development_time_pct \<le> 0 \<or> 100 \<le> development_time_pct
        then Inl (InvalidParameter ''development_time_pct'')
      else Inr (curve level charge_temp development_time_pct))"

text \<open>
  The two sliders of lines 62 and 63: \<open>st.slider(label, min, max, value, step)\<close> yields
  \<open>min\<close>, \<open>min + step\<close>, ... up to \<open>max\<close>.
\<close>

definition charge_temp_slider :: "int \<Rightarrow> bool" where
  "charge_temp_slider v = (150 \<le> v \<and> v \<le> 250 \<and> (v - 150) mod 5 = 0)"

definition development_time_slider :: "int \<Rightarrow> bool" where
  "development_time_slider v = (10 \<le> v \<and> v \<le> 40)"

subsection \<open>Concrete sessions\<close>

text \<open>
  A profile of three samples on the half-minute grid, a session with a profile and no
  roast yet, the same session one hundred seconds later with a roast in progress, two
  rows of the event log and a live trace of three rows.
\<close>

definition demo_profile :: profile where
  "demo_profile =
     [\<lparr>Time = 0, Temperature = 190\<rparr>, \<lparr>Time = 1/2, Temperature = 185\<rparr>,
      \<lparr>Time = 1, Temperature = 200\<rparr>]"

text \<open>
  Two profiles off that grid: samples one minute apart from 0, and samples half a
  minute apart whose first one is at half a minute.
\<close>

definition minute_profile :: profile where
  "minute_profile =
     [\<lparr>Time = 0, Temperature = 190\<rparr>, \<lparr>Time = 1, Temperature = 185\<rparr>,
      \<lparr>Time = 2, Temperature = 200\<rparr>]"

definition shifted_profile :: profile where
  "shifted_profile =
     [\<lparr>Time = 1/2, Temperature = 190\<rparr>, \<lparr>Time = 1, Temperature = 185\<rparr>,
      \<lparr>Time = 3/2, Temperature = 200\<rparr>]"

definition ready_state :: session_state where
  "ready_state = initial_state\<lparr>roast_profile := Some [\<lparr>Time = 0, Temperature = 190\<rparr>]\<rparr>"

definition running_state :: session_state where
  "running_state = ready_state\<lparr>roast_in_progress := True, start_time := Some 100\<rparr>"

definition demo_started :: roast_event where
  "demo_started = \<lparr>timestamp = 101, event_type = ''Roast Started'', details = []\<rparr>"

definition demo_crack :: roast_event where
  "demo_crack = \<lparr>timestamp = 580, event_type = ''First Crack'', details = []\<rparr>"

definition demo_trace :: "trace_row list" where
  "demo_trace =
     [\<lparr>Time = 0, Temperature = 190, Event = []\<rparr>,
      \<lparr>Time = 1, Temperature = 204, Event = []\<rparr>,
      \<lparr>Time = 2, Temperature = 201, Event = []\<rparr>]"

section \<open>Properties\<close>

subsection \<open>Auxiliary facts\<close>

lemma py_int_nonneg: "0 \<le> x \<Longrightarrow> py_int x = \<lfloor>x\<rfloor>"
  by (simp add: py_int_def)

lemma lookup_index_range:
  assumes "p \<noteq> []" and "0 \<le> t"
  shows "0 \<le> lookup_index p t" and "lookup_index p t < int (length p)"
  using assms by (simp_all add: lookup_index_def py_int_nonneg)

lemma iloc_in_range: "0 \<le> i \<Longrightarrow> i < int (length rows) \<Longrightarrow> iloc rows i = Inr (rows ! nat i)"
  by (simp add: iloc_def)

lemma grid_Time:
  assumes "half_minute_grid p" and "i < length p"
  shows "Time (p ! i) = real i / 2"
proof -
  have "Time (p ! i) = map Time p ! i"
    using assms(2) by simp
  also have "\<dots> = map (\<lambda>i. real i / 2) [0..<length p] ! i"
    using assms(1) by (simp add: half_minute_grid_def)
  also have "\<dots> = real i / 2"
    using assms(2) by simp
  finally show ?thesis .
qed

lemma filter_first:
  "\<forall>x\<in>set pre. \<not> P x \<Longrightarrow> P e \<Longrightarrow> filter P (pre @ e # post) = e # filter P post"
  by (induction pre) simp_all

lemma fold_max_Max: "fold max xs (a::real) = Max (set (a # xs))"
  by (rule Max.set_eq_fold [symmetric])

text \<open>
  In every session that the three operations can reach from the initial one, a roast
  in progress has a \<open>start_time\<close>, so the \<open>TypeError\<close> branches are never taken.
\<close>

lemma started_initial: "started initial_state"
  by (simp add: started_def initial_state_def)

lemma started_start_roast: "started s \<Longrightarrow> start_roast note now ts s = Inr s' \<Longrightarrow> started s'"
  by (auto simp add: started_def start_roast_def add_event_def split: if_splits)

lemma started_end_roast: "started s \<Longrightarrow> end_roast fmt_1f now ts s = Inr s' \<Longrightarrow> started s'"
  by (auto simp add: started_def end_roast_def add_event_def split: if_splits option.splits)

lemma started_live_reading: "started s \<Longrightarrow> live_reading now s = Inr s' \<Longrightarrow> started s'"
  by (auto simp add: started_def live_reading_def split: if_splits option.splits sum.splits)

lemma slider_inputs_accepted:
  "charge_temp_slider c \<Longrightarrow> development_time_slider d \<Longrightarrow>
   generate curve bean_type level (real_of_int c) (real_of_int d) =
     Inr (curve level (real_of_int c) (real_of_int d))"
  by (auto simp add: generate_def charge_temp_slider_def development_time_slider_def)

subsection \<open>The live temperature lookup\<close>

text \<open>
  Claim C9. For every non-empty profile and every non-negative elapsed time, the index
  \<open>min(int(elapsed * 2), len(profile) - 1)\<close> is a position of the profile, and the read
  of the current temperature returns the temperature of that row instead of failing.
\<close>

theorem lookup_index_valid:
  assumes "p \<noteq> []" and "0 \<le> t"
  shows "0 \<le> lookup_index p t \<and> lookup_index p t < int (length p) \<and>
         current_temp p t = Inr (Temperature (p ! nat (lookup_index p t)))"
  using lookup_index_range [OF assms]
  by (simp add: current_temp_def iloc_in_range)

theorem lookup_index_valid_witness:
  "demo_profile \<noteq> [] \<and> (0::real) \<le> 7 / 10 \<and>
   lookup_index demo_profile (7 / 10) = 1 \<and> current_temp demo_profile (7 / 10) = Inr 185"
  using lookup_index_valid [of demo_profile "7 / 10"]
  by (simp add: demo_profile_def lookup_index_def py_int_def)

text \<open>
  Claim C1, as amended. For a non-empty profile whose row \<open>i\<close> is the sample at \<open>i / 2\<close>
  elapsed minutes (half-minute steps, the first sample at 0) and a requested elapsed
  time that some stored sample does not exceed, the lookup returns the temperature of a
  stored sample whose elapsed minutes are at most the requested time and are the
  largest such among all samples; and for every requested time beyond the last sample
  it returns the temperature of the last sample. On such a profile the result is always
  the temperature of a stored row: never a failure, never a value outside the profile.
\<close>

theorem current_temp_nearest_sample:
  assumes "p \<noteq> []" and "half_minute_grid p" and "\<exists>k<length p. Time (p ! k) \<le> t"
  shows "(\<exists>j<length p. current_temp p t = Inr (Temperature (p ! j)) \<and> Time (p ! j) \<le> t \<and>
            (\<forall>k<length p. Time (p ! k) \<le> t \<longrightarrow> Time (p ! k) \<le> Time (p ! j))) \<and>
         (Time (last p) < t \<longrightarrow> current_temp p t = Inr (Temperature (last p)))"
proof -
  from assms(3) obtain k0 where k0: "k0 < length p" "Time (p ! k0) \<le> t" by blast
  have t0: "0 \<le> t"
    using k0 grid_Time [OF assms(2) k0(1)] by simp
  define j where "j = nat (lookup_index p t)"
  have rng: "0 \<le> lookup_index p t" "lookup_index p t < int (length p)"
    using lookup_index_range [OF assms(1) t0] by simp_all
  have jlt: "j < length p"
    using rng by (simp add: j_def)
  have jint: "int j = min \<lfloor>t * 2\<rfloor> (int (length p) - 1)"
    using rng t0 by (simp add: j_def lookup_index_def py_int_nonneg)
  have val: "current_temp p t = Inr (Temperature (p ! j))"
    using rng by (simp add: current_temp_def iloc_in_range j_def)
  have "int j \<le> \<lfloor>t * 2\<rfloor>"
    using jint by simp
  then have "real j \<le> t * 2"
    by (simp add: le_floor_iff)
  then have le: "Time (p ! j) \<le> t"
    using grid_Time [OF assms(2) jlt] by simp
  have best: "Time (p ! k) \<le> Time (p ! j)" if "k < length p" "Time (p ! k) \<le> t" for k
  proof -
    have "real k \<le> t * 2"
      using that grid_Time [OF assms(2) that(1)] by simp
    then have "int k \<le> \<lfloor>t * 2\<rfloor>"
      by (simp add: le_floor_iff)
    moreover have "int k \<le> int (length p) - 1"
      using that(1) by simp
    ultimately have "int k \<le> int j"
      using jint by simp
    then show ?thesis
      using grid_Time [OF assms(2) that(1)] grid_Time [OF assms(2) jlt] by simp
  qed
  have clamp: "current_temp p t = Inr (Temperature (last p))" if "Time (last p) < t"
  proof -
    have lastp: "last p = p ! (length p - 1)"
      using assms(1) by (simp add: last_conv_nth)
    have "real (length p - 1) / 2 < t"
      using that lastp grid_Time [OF assms(2), of "length p - 1"] assms(1) by simp
    then have "real (length p - 1) \<le> t * 2"
      by simp
    then have "int (length p - 1) \<le> \<lfloor>t * 2\<rfloor>"
      by (simp add: le_floor_iff)
    then have "int j = int (length p) - 1"
      using jint assms(1) by (simp add: of_nat_diff Suc_leI)
    then have "j = length p - 1"
      by simp
    then show ?thesis
      using val lastp by simp
  qed
  show ?thesis
    using jlt val le best clamp by blast
qed

theorem current_temp_nearest_sample_witness:
  "demo_profile \<noteq> [] \<and> half_minute_grid demo_profile \<and>
   (\<exists>k<length demo_profile. Time (demo_profile ! k) \<le> 4) \<and>
   Time (last demo_profile) < 4 \<and>
   current_temp demo_profile 4 = Inr 200"
proof -
  have g: "half_minute_grid demo_profile"
    by (simp add: half_minute_grid_def demo_profile_def upt_rec)
  have e: "\<exists>k<length demo_profile. Time (demo_profile ! k) \<le> 4"
    by (rule exI [of _ 0]) (simp add: demo_profile_def)
  have n: "demo_profile \<noteq> []"
    by (simp add: demo_profile_def)
  show ?thesis
    using current_temp_nearest_sample [OF n g e] n g e by (simp add: demo_profile_def)
qed

text \<open>
  The claim as stated covers every non-empty profile. The lookup goes by position and
  does not read the elapsed minutes, so off the grid it returns another sample. With
  samples one minute apart, a request at 1 minute returns 200, the temperature of the
  sample at 2 minutes, although the sample at 1 minute (185) is stored; no stored sample
  at or before the requested time has the returned temperature. With half-minute
  samples that start at half a minute, a request at half a minute returns 185, the
  temperature of the sample at 1 minute, and not the 190 of the sample at half a minute.
\<close>

theorem current_temp_off_grid_counterexample:
  "minute_profile \<noteq> [] \<and>
   Time (minute_profile ! 1) = 1 \<and> Temperature (minute_profile ! 1) = 185 \<and>
   current_temp minute_profile 1 = Inr 200 \<and>
   \<not> (\<exists>j<length minute_profile.
         current_temp minute_profile 1 = Inr (Temperature (minute_profile ! j)) \<and>
         Time (minute_profile ! j) \<le> 1) \<and>
   shifted_profile \<noteq> [] \<and>
   Time (shifted_profile ! 0) = 1/2 \<and> Temperature (shifted_profile ! 0) = 190 \<and>
   current_temp shifted_profile (1/2) = Inr 185 \<and>
   \<not> (\<exists>j<length shifted_profile.
         current_temp shifted_profile (1/2) = Inr (Temperature (shifted_profile ! j)) \<and>
         Time (shifted_profile ! j) \<le> 1/2)"
proof -
  have m: "current_temp minute_profile 1 = Inr 200"
    by (simp add: current_temp_def lookup_index_def py_int_def iloc_def minute_profile_def)
  have h: "current_temp shifted_profile (1/2) = Inr 185"
    by (simp add: current_temp_def lookup_index_def py_int_def iloc_def shifted_profile_def)
  have mn: "\<not> (\<exists>j<length minute_profile.
      current_temp minute_profile 1 = Inr (Temperature (minute_profile ! j)) \<and>
      Time (minute_profile ! j) \<le> 1)"
  proof
    assume "\<exists>j<length minute_profile.
      current_temp minute_profile 1 = Inr (Temperature (minute_profile ! j)) \<and>
      Time (minute_profile ! j) \<le> 1"
    then obtain j where j: "j < length minute_profile"
      and v: "Temperature (minute_profile ! j) = 200"
      and u: "Time (minute_profile ! j) \<le> 1"
      using m by auto
    from j have "j < 3"
      by (simp add: minute_profile_def)
    then have "j = 0 \<or> j = 1 \<or> j = 2"
      by arith
    then show False
      using v u by (auto simp add: minute_profile_def)
  qed
  have hn: "\<not> (\<exists>j<length shifted_profile.
      current_temp shifted_profile (1/2) = Inr (Temperature (shifted_profile ! j)) \<and>
      Time (shifted_profile ! j) \<le> 1/2)"
  proof
    assume "\<exists>j<length shifted_profile.
      current_temp shifted_profile (1/2) = Inr (Temperature (shifted_profile ! j)) \<and>
      Time (shifted_profile ! j) \<le> 1/2"
    then obtain j where j: "j < length shifted_profile"
      and v: "Temperature (shifted_profile ! j) = 185"
      and u: "Time (shifted_profile ! j) \<le> 1/2"
      using h by auto
    from j have "j < 3"
      by (simp add: shifted_profile_def)
    then have "j = 0 \<or> j = 1 \<or> j = 2"
      by arith
    then show False
      using v u by (auto simp add: shifted_profile_def)
  qed
  have c: "minute_profile \<noteq> [] \<and>
      Time (minute_profile ! 1) = 1 \<and> Temperature (minute_profile ! 1) = 185 \<and>
      shifted_profile \<noteq> [] \<and>
      Time (shifted_profile ! 0) = 1/2 \<and> Temperature (shifted_profile ! 0) = 190"
    by (simp add: minute_profile_def shifted_profile_def)
  show ?thesis
    using m h mn hn c by blast
qed

subsection \<open>Starting a roast\<close>




subsection \<open>Ending a roast\<close>




subsection \<open>Statistics\<close>

text \<open>
  Claim C4. When the log has no \<open>First Crack\<close> event, the time to first crack is the
  \<open>N/A\<close> value, returned and not raised, whatever the start instant is. When the log has
  one, the result is the minutes from the session's start instant to the timestamp of
  the first such event: \<open>e\<close> is the first \<open>First Crack\<close> row when no row before it has
  that type.
\<close>

theorem time_to_first_crack_value:
  "(''First Crack'' \<notin> set (map event_type evs) \<longrightarrow> time_to_first_crack evs st = Inr N_A) \<and>
   (''First Crack'' \<notin> set (map event_type pre) \<and> event_type e = ''First Crack'' \<longrightarrow>
      time_to_first_crack (pre @ e # post) (Some t0) = Inr (Minutes ((timestamp e - t0) / 60)))"
proof (intro conjI impI)
  assume "''First Crack'' \<notin> set (map event_type evs)"
  then show "time_to_first_crack evs st = Inr N_A"
    by (simp add: time_to_first_crack_def)
next
  assume a: "''First Crack'' \<notin> set (map event_type pre) \<and> event_type e = ''First Crack''"
  then have "\<forall>x\<in>set pre. \<not> event_type x = ''First Crack''"
    by (auto simp add: image_iff)
  then have f: "filter (\<lambda>x. event_type x = ''First Crack'') (pre @ e # post) =
      e # filter (\<lambda>x. event_type x = ''First Crack'') post"
    using a by (intro filter_first) simp_all
  show "time_to_first_crack (pre @ e # post) (Some t0) = Inr (Minutes ((timestamp e - t0) / 60))"
    unfolding time_to_first_crack_def f using a by (simp add: iloc_def)
qed

theorem time_to_first_crack_value_witness:
  "''First Crack'' \<notin> set (map event_type [demo_started]) \<and>
   time_to_first_crack [demo_started] None = Inr N_A \<and>
   event_type demo_crack = ''First Crack'' \<and>
   time_to_first_crack [demo_started, demo_crack, demo_crack\<lparr>timestamp := 640\<rparr>] (Some 100) =
     Inr (Minutes 8)"
  using time_to_first_crack_value [where evs = "[demo_started]" and st = None
      and pre = "[demo_started]" and e = demo_crack
      and post = "[demo_crack\<lparr>timestamp := 640\<rparr>]" and ?t0.0 = 100]
  by (simp add: demo_started_def demo_crack_def)

text \<open>
  Claim C10. The three statistics are produced only when the live trace has at least
  one row. While the trace is empty nothing is reported, whatever the event log holds,
  a \<open>First Crack\<close> event included. When statistics are reported, the latest temperature
  is that of the last row of the trace, the peak temperature is the maximum over the
  rows of the trace, and the third is the time to first crack. They are reported for
  every non-empty trace of a session that has a start instant or no \<open>First Crack\<close> event.
\<close>

theorem roast_statistics_gate:
  "(roast_data s = [] \<longrightarrow> roast_statistics s = Inr None) \<and>
   (roast_statistics s = Inr (Some st) \<longrightarrow>
      roast_data s \<noteq> [] \<and>
      latest_temp st = Temperature (last (roast_data s)) \<and>
      max_temp st = Max (Temperature ` set (roast_data s)) \<and>
      time_to_first_crack (events s) (start_time s) = Inr (first_crack st)) \<and>
   (roast_data s \<noteq> [] \<and>
    (start_time s \<noteq> None \<or> ''First Crack'' \<notin> set (map event_type (events s))) \<longrightarrow>
      (\<exists>st. roast_statistics s = Inr (Some st)))"
proof -
  have empty: "roast_data s = [] \<longrightarrow> roast_statistics s = Inr None"
    by (simp add: roast_statistics_def)
  have shown: "roast_statistics s = Inr (Some st) \<longrightarrow>
      roast_data s \<noteq> [] \<and>
      latest_temp st = Temperature (last (roast_data s)) \<and>
      max_temp st = Max (Temperature ` set (roast_data s)) \<and>
      time_to_first_crack (events s) (start_time s) = Inr (first_crack st)"
  proof
    assume a: "roast_statistics s = Inr (Some st)"
    then obtain r rs where d: "roast_data s = r # rs"
      by (cases "roast_data s") (simp_all add: roast_statistics_def)
    from a d obtain t where t: "time_to_first_crack (events s) (start_time s) = Inr t"
      and st: "st = \<lparr>latest_temp = Temperature (last (r # rs)),
                      max_temp = fold max (map Temperature rs) (Temperature r), first_crack = t\<rparr>"
      by (auto simp add: roast_statistics_def split: sum.splits)
    have "max_temp st = fold max (map Temperature rs) (Temperature r)"
      using st by simp
    also have "\<dots> = Max (set (Temperature r # map Temperature rs))"
      by (rule fold_max_Max)
    also have "\<dots> = Max (Temperature ` set (roast_data s))"
      using d by simp
    finally have m: "max_temp st = Max (Temperature ` set (roast_data s))" .
    have l: "latest_temp st = Temperature (last (roast_data s))"
      using st d by simp
    have f: "time_to_first_crack (events s) (start_time s) = Inr (first_crack st)"
      using st t by simp
    show "roast_data s \<noteq> [] \<and>
      latest_temp st = Temperature (last (roast_data s)) \<and>
      max_temp st = Max (Temperature ` set (roast_data s)) \<and>
      time_to_first_crack (events s) (start_time s) = Inr (first_crack st)"
      using d l m f by simp
  qed
  have produced: "roast_data s \<noteq> [] \<and>
    (start_time s \<noteq> None \<or> ''First Crack'' \<notin> set (map event_type (events s))) \<longrightarrow>
      (\<exists>st. roast_statistics s = Inr (Some st))"
  proof
    assume a: "roast_data s \<noteq> [] \<and>
      (start_time s \<noteq> None \<or> ''First Crack'' \<notin> set (map event_type (events s)))"
    then obtain r rs where d: "roast_data s = r # rs"
      by (cases "roast_data s") simp_all
    have "\<exists>t. time_to_first_crack (events s) (start_time s) = Inr t"
    proof (cases "''First Crack'' \<in> set (map event_type (events s))")
      case False
      then show ?thesis by (simp add: time_to_first_crack_def)
    next
      case True
      then obtain t0 where t0: "start_time s = Some t0"
        using a by auto
      from True have "filter (\<lambda>e. event_type e = ''First Crack'') (events s) \<noteq> []"
        by (auto simp add: filter_empty_conv)
      then obtain e es where "filter (\<lambda>e. event_type e = ''First Crack'') (events s) = e # es"
        by (cases "filter (\<lambda>e. event_type e = ''First Crack'') (events s)") simp_all
      then show ?thesis
        using True t0 by (auto simp add: time_to_first_crack_def iloc_def)
    qed
    then obtain t where "time_to_first_crack (events s) (start_time s) = Inr t" ..
    then show "\<exists>st. roast_statistics s = Inr (Some st)"
      using d by (simp add: roast_statistics_def)
  qed
  show ?thesis
    using empty shown produced by blast
qed

theorem roast_statistics_gate_witness:
  "roast_data (running_state\<lparr>events := [demo_crack]\<rparr>) = [] \<and>
   roast_statistics (running_state\<lparr>events := [demo_crack]\<rparr>) = Inr None \<and>
   roast_data (running_state\<lparr>roast_data := demo_trace, events := [demo_crack]\<rparr>) \<noteq> [] \<and>
   roast_statistics (running_state\<lparr>roast_data := demo_trace, events := [demo_crack]\<rparr>) =
     Inr (Some \<lparr>latest_temp = 201, max_temp = 204, first_crack = Minutes 8\<rparr>)"
proof -
  have v: "roast_statistics (running_state\<lparr>roast_data := demo_trace, events := [demo_crack]\<rparr>) =
     Inr (Some \<lparr>latest_temp = 201, max_temp = 204, first_crack = Minutes 8\<rparr>)"
    by (simp add: roast_statistics_def running_state_def ready_state_def initial_state_def
        demo_trace_def demo_crack_def time_to_first_crack_def iloc_def)
  show ?thesis
    using roast_statistics_gate [of "running_state\<lparr>events := [demo_crack]\<rparr>"]
      roast_statistics_gate [of "running_state\<lparr>roast_data := demo_trace, events := [demo_crack]\<rparr>"
        "\<lparr>latest_temp = 201, max_temp = 204, first_crack = Minutes 8\<rparr>"] v
    by (simp add: running_state_def ready_state_def initial_state_def demo_trace_def)
qed

subsection \<open>Validation of the generation parameters\<close>

text \<open>
  Claim C7. Whenever the charge temperature is outside 150 to 250 or the development
  percentage is not strictly between 0 and 100, generation fails with \<open>InvalidParameter\<close>
  carrying the name of a parameter that is out of range; no profile is returned, so
  nothing is clamped into range.
\<close>

theorem generate_rejects_out_of_range:
  "\<not> (150 \<le> charge_temp \<and> charge_temp \<le> 250 \<and> 0 < development_time_pct \<and> development_time_pct < 100) \<longrightarrow>
     (\<exists>name. generate curve bean_type level charge_temp development_time_pct = Inl (InvalidParameter name) \<and>
        (name = ''charge_temp'' \<and> (charge_temp < 150 \<or> 250 < charge_temp) \<or>
         name = ''development_time_pct'' \<and> (development_time_pct \<le> 0 \<or> 100 \<le> development_time_pct)))"
  by (auto simp add: generate_def)

theorem generate_rejects_out_of_range_witness:
  "\<not> (150 \<le> (300::real) \<and> (300::real) \<le> 250 \<and> 0 < (20::real) \<and> (20::real) < 100) \<and>
   generate (\<lambda>l c d. []) ''Arabica'' Medium 300 20 = Inl (InvalidParameter ''charge_temp'') \<and>
   \<not> (150 \<le> (190::real) \<and> (190::real) \<le> 250 \<and> 0 < (100::real) \<and> (100::real) < 100) \<and>
   generate (\<lambda>l c d. []) ''Arabica'' Medium 190 100 = Inl (InvalidParameter ''development_time_pct'')"
  using generate_rejects_out_of_range [of 300 20 "\<lambda>l c d. []" "''Arabica''" Medium]
    generate_rejects_out_of_range [of 190 100 "\<lambda>l c d. []" "''Arabica''" Medium]
  by auto

end
